theory Spec2Isabelle
  imports Main
begin

section \<open>Data model\<close>

text \<open>
  \<open>S3Service.py\<close> imports its data model from \<open>s3Bucket\<close> and \<open>exceptions\<close>. The
  enumerations, the two entities and the exception kinds are embedded here as the service
  uses them: the fields it reads and writes, and the one method it calls (\<open>addObject\<close>).
\<close>

text \<open>Modelled from the spec: the enumeration \<open>Permission\<close> of module \<open>s3Bucket\<close>
  (UNKNOWN by default, ALLOWED, DENIED).\<close>

datatype Permission = UNKNOWN | ALLOWED | DENIED

text \<open>Modelled from the spec: the enumeration \<open>BucketExists\<close> of module \<open>s3Bucket\<close>
  (UNKNOWN by default, YES, NO).\<close>

datatype BucketExists = UNKNOWN | YES | NO

type_synonym timestamp = int

text \<open>Modelled from the spec: the class \<open>s3BucketObject\<close> of module \<open>s3Bucket\<close>, an
  immutable record of key, last-modified time and size.\<close>

record s3BucketObject =
  key :: string
  last_modified :: timestamp
  size :: int

text \<open>
  The raw result of \<open>get_bucket_acl\<close>, as far as \<open>parse_found_acl\<close> reads it: a dictionary
  that may carry \<open>'Grants'\<close>, each grant with a \<open>'Grantee'\<close> (a \<open>'Type'\<close> and, for groups, a
  \<open>'URI'\<close>) and a \<open>'Permission'\<close>.
\<close>

record grantee =
  Type :: string
  URI :: "string option"

record grant =
  Grantee :: grantee
  Permission :: string

record acl =
  Grants :: "grant list option"

text \<open>Modelled from the spec: the class \<open>s3Bucket\<close> of module \<open>s3Bucket\<close>, with the
  fields the service reads and writes: the name, the existence status, the raw ACL (absent
  until an ACL read succeeds), the ten permission flags, the discovered objects in discovery
  order and the enumeration marker.\<close>

record s3Bucket =
  name :: string
  exists :: BucketExists
  foundACL :: "acl option"
  AuthUsersRead :: Permission
  AuthUsersWrite :: Permission
  AuthUsersReadACP :: Permission
  AuthUsersWriteACP :: Permission
  AuthUsersFullControl :: Permission
  AllUsersRead :: Permission
  AllUsersWrite :: Permission
  AllUsersReadACP :: Permission
  AllUsersWriteACP :: Permission
  AllUsersFullControl :: Permission
  objects :: "s3BucketObject list"
  objects_enumerated :: bool

text \<open>Modelled from the spec: the method \<open>s3Bucket.addObject\<close>, which appends a discovered
  object to the bucket's collection, keeping discovery order and duplicates.\<close>

definition addObject :: "s3Bucket \<Rightarrow> s3BucketObject \<Rightarrow> s3Bucket" where
  "addObject b obj = b\<lparr>objects := objects b @ [obj]\<rparr>"

text \<open>
  A \<open>botocore\<close> \<open>ClientError\<close> carries a response whose \<open>['Error']['Code']\<close> the service
  inspects; the message travels with it.
\<close>

record client_error =
  Code :: string
  Message :: string

text \<open>
  The exceptions the service raises or lets through. \<open>AccessDeniedException\<close> is modelled
  from the spec: the one specific kind of module \<open>exceptions\<close>.
\<close>

datatype exn =
    ValueError string
  | ClientError client_error
  | AccessDeniedException string
  | Exception string

datatype outcome = Returned | Raised exn


section \<open>The storage backend\<close>

text \<open>
  One page of the \<open>list_objects_v2\<close> paginator: the \<open>'Contents'\<close> list is optional, and
  each item carries \<open>'Key'\<close>, \<open>'LastModified'\<close> and \<open>'Size'\<close>.
\<close>

record item =
  Key :: string
  LastModified :: timestamp
  Size :: int

record page =
  Contents :: "item list option"

text \<open>
  The client \<open>self.s3_client\<close>: each call either returns (\<open>Inr\<close>) or raises a
  \<open>ClientError\<close> (\<open>Inl\<close>). The paginator is lazy, so its result is the sequence of what
  each fetch yields: a page, or the \<open>ClientError\<close> that fetch raises.
\<close>

record s3_client =
  head_bucket :: "string \<Rightarrow> client_error + unit"
  get_bucket_acl :: "string \<Rightarrow> client_error + acl"
  list_objects_v2 :: "string \<Rightarrow> nat \<Rightarrow> client_error + unit"
  put_object :: "string \<Rightarrow> string \<Rightarrow> string \<Rightarrow> client_error + unit"
  delete_object :: "string \<Rightarrow> string \<Rightarrow> client_error + unit"
  put_bucket_acl :: "(string \<times> string) list \<Rightarrow> client_error + unit"
  paginate :: "string \<Rightarrow> (client_error + page) list"

text \<open>The requests a probe sends, in the order it sends them.\<close>

datatype request =
    HeadBucket string
  | GetBucketAcl string
  | ListObjectsV2 string nat
  | PutObject string string string
  | DeleteObject string string
  | PutBucketAcl "(string \<times> string) list"
  | Paginate string

record S3Service =
  aws_creds_configured :: bool
  s3_client :: s3_client

text \<open>
  What a probe leaves behind: whether it returned or raised, the bucket as mutated up to
  that point, and the requests sent.
\<close>

record result =
  outcome :: outcome
  bucket :: s3Bucket
  requests :: "request list"

definition allUsersURI :: string where
  "allUsersURI = ''uri=http://acs.amazonaws.com/groups/global/AllUsers''"

definition authUsersURI :: string where
  "authUsersURI = ''uri=http://acs.amazonaws.com/groups/global/AuthenticatedUsers''"

text \<open>
  The test \<open>e.response['Error']['Code'] == "AccessDenied" or \<dots> == "AllAccessDisabled"\<close>,
  which every handler of the service repeats.
\<close>

definition access_denied :: "client_error \<Rightarrow> bool" where
  "access_denied e \<longleftrightarrow> Code e = ''AccessDenied'' \<or> Code e = ''AllAccessDisabled''"

section \<open>check_bucket_exists\<close>

text \<open>The argument of \<open>check_bucket_exists\<close> is any Python object; \<open>isinstance\<close> tells
  the bucket entities from the rest.\<close>

datatype py_object = S3BucketObj s3Bucket | OtherObj

definition check_bucket_exists :: "S3Service \<Rightarrow> py_object \<Rightarrow> exn + s3Bucket \<times> request list" where
  "check_bucket_exists svc obj =
     (case obj of
        OtherObj \<Rightarrow> Inl (ValueError ''Passed object was not type s3Bucket'')
      | S3BucketObj b \<Rightarrow>
          (let bucket_exists =
                 (case head_bucket (s3_client svc) (name b) of
                    Inr _ \<Rightarrow> True
                  | Inl e \<Rightarrow> if Code e = ''404'' then False else True)
           in Inr (b\<lparr>exists := (if bucket_exists then BucketExists.YES else BucketExists.NO)\<rparr>,
                   [HeadBucket (name b)])))"

section \<open>parse_found_acl\<close>

text \<open>The body of the loop over \<open>bucket.foundACL['Grants']\<close>.\<close>

definition apply_grant :: "s3Bucket \<Rightarrow> grant \<Rightarrow> s3Bucket" where
  "apply_grant b g =
     (if Type (Grantee g) = ''Group'' then
        (if URI (Grantee g) = Some ''http://acs.amazonaws.com/groups/global/AuthenticatedUsers'' then
           (if Permission g = ''FULL_CONTROL'' then
              b\<lparr>AuthUsersRead := ALLOWED, AuthUsersWrite := ALLOWED, AuthUsersReadACP := ALLOWED,
                AuthUsersWriteACP := ALLOWED, AuthUsersFullControl := ALLOWED\<rparr>
            else if Permission g = ''READ'' then b\<lparr>AuthUsersRead := ALLOWED\<rparr>
            else if Permission g = ''READ_ACP'' then b\<lparr>AuthUsersReadACP := ALLOWED\<rparr>
            else if Permission g = ''WRITE'' then b\<lparr>AuthUsersWrite := ALLOWED\<rparr>
            else if Permission g = ''WRITE_ACP'' then b\<lparr>AuthUsersWriteACP := ALLOWED\<rparr>
            else b)
         else if URI (Grantee g) = Some ''http://acs.amazonaws.com/groups/global/AllUsers'' then
           (if Permission g = ''FULL_CONTROL'' then
              b\<lparr>AllUsersRead := ALLOWED, AllUsersWrite := ALLOWED, AllUsersReadACP := ALLOWED,
                AllUsersWriteACP := ALLOWED, AllUsersFullControl := ALLOWED\<rparr>
            else if Permission g = ''READ'' then b\<lparr>AllUsersRead := ALLOWED\<rparr>
            else if Permission g = ''READ_ACP'' then b\<lparr>AllUsersReadACP := ALLOWED\<rparr>
            else if Permission g = ''WRITE'' then b\<lparr>AllUsersWrite := ALLOWED\<rparr>
            else if Permission g = ''WRITE_ACP'' then b\<lparr>AllUsersWriteACP := ALLOWED\<rparr>
            else b)
         else b)
      else b)"

text \<open>The ten tests after the loop: a flag still at UNKNOWN becomes DENIED.\<close>

definition deny_unknown :: "s3Bucket \<Rightarrow> s3Bucket" where
  "deny_unknown b =
     (let b = (if AuthUsersRead b = Permission.UNKNOWN then b\<lparr>AuthUsersRead := DENIED\<rparr> else b);
          b = (if AuthUsersWrite b = Permission.UNKNOWN then b\<lparr>AuthUsersWrite := DENIED\<rparr> else b);
          b = (if AuthUsersReadACP b = Permission.UNKNOWN then b\<lparr>AuthUsersReadACP := DENIED\<rparr> else b);
          b = (if AuthUsersWriteACP b = Permission.UNKNOWN then b\<lparr>AuthUsersWriteACP := DENIED\<rparr> else b);
          b = (if AuthUsersFullControl b = Permission.UNKNOWN
               then b\<lparr>AuthUsersFullControl := DENIED\<rparr> else b);
          b = (if AllUsersRead b = Permission.UNKNOWN then b\<lparr>AllUsersRead := DENIED\<rparr> else b);
          b = (if AllUsersWrite b = Permission.UNKNOWN then b\<lparr>AllUsersWrite := DENIED\<rparr> else b);
          b = (if AllUsersReadACP b = Permission.UNKNOWN then b\<lparr>AllUsersReadACP := DENIED\<rparr> else b);
          b = (if AllUsersWriteACP b = Permission.UNKNOWN then b\<lparr>AllUsersWriteACP := DENIED\<rparr> else b);
          b = (if AllUsersFullControl b = Permission.UNKNOWN
               then b\<lparr>AllUsersFullControl := DENIED\<rparr> else b)
      in b)"

definition parse_found_acl :: "s3Bucket \<Rightarrow> s3Bucket" where
  "parse_found_acl b =
     (case foundACL b of
        None \<Rightarrow> b
      | Some a \<Rightarrow>
          (case Grants a of
             None \<Rightarrow> b
           | Some gs \<Rightarrow> deny_unknown (foldl apply_grant b gs)))"

section \<open>check_perm_read_acl\<close>

definition check_perm_read_acl :: "S3Service \<Rightarrow> s3Bucket \<Rightarrow> result" where
  "check_perm_read_acl svc b =
     (if exists b \<noteq> BucketExists.YES then
        \<lparr>outcome = Raised (ValueError ''Bucket might not exist''), bucket = b, requests = []\<rparr>
      else
        (case get_bucket_acl (s3_client svc) (name b) of
           Inr a \<Rightarrow>
             \<lparr>outcome = Returned, bucket = parse_found_acl (b\<lparr>foundACL := Some a\<rparr>),
              requests = [GetBucketAcl (name b)]\<rparr>
         | Inl e \<Rightarrow>
             if access_denied e then
               \<lparr>outcome = Returned,
                bucket = parse_found_acl
                  (if aws_creds_configured svc then b\<lparr>AuthUsersReadACP := DENIED\<rparr>
                   else b\<lparr>AllUsersReadACP := DENIED\<rparr>),
                requests = [GetBucketAcl (name b)]\<rparr>
             else
               \<lparr>outcome = Raised (ClientError e), bucket = b,
                requests = [GetBucketAcl (name b)]\<rparr>))"

section \<open>check_perm_read\<close>

text \<open>
  The diagnostic line printed before an unexpected error is re-raised goes to standard
  output only and is not part of the model.
\<close>

definition check_perm_read :: "S3Service \<Rightarrow> s3Bucket \<Rightarrow> result" where
  "check_perm_read svc b =
     (if exists b \<noteq> BucketExists.YES then
        \<lparr>outcome = Raised (ValueError ''Bucket might not exist''), bucket = b, requests = []\<rparr>
      else
        (let rs = [ListObjectsV2 (name b) 0];
             finish = (\<lambda>list_bucket_perm_allowed.
               \<lparr>outcome = Returned,
                bucket =
                  (if aws_creds_configured svc then
                     (if AllUsersRead b \<noteq> ALLOWED then
                        b\<lparr>AuthUsersRead := (if list_bucket_perm_allowed then ALLOWED else DENIED)\<rparr>
                      else b)
                   else b\<lparr>AllUsersRead := (if list_bucket_perm_allowed then ALLOWED else DENIED)\<rparr>),
                requests = rs\<rparr>)
         in case list_objects_v2 (s3_client svc) (name b) 0 of
              Inr _ \<Rightarrow> finish True
            | Inl e \<Rightarrow>
                if access_denied e then finish False
                else \<lparr>outcome = Raised (ClientError e), bucket = b, requests = rs\<rparr>))"

section \<open>check_perm_write\<close>

text \<open>
  The wall clock is an input: \<open>now\<close> stands for \<open>str(datetime.datetime.now().timestamp())\<close>.
  \<open>check_perm_write_try\<close> is the \<open>try\<close> block: it yields the \<open>ClientError\<close> that left the
  block, if any, the bucket at that point and the requests sent. \<open>check_perm_write\<close> adds
  the guard before it and the \<open>except\<close> clause after it (the \<open>finally\<close> clause is \<open>pass\<close>).
\<close>

definition check_perm_write_try ::
    "S3Service \<Rightarrow> string \<Rightarrow> s3Bucket \<Rightarrow> client_error option \<times> s3Bucket \<times> request list" where
  "check_perm_write_try svc timestamp_file b =
     (case put_object (s3_client svc) (name b) timestamp_file [] of
        Inl e \<Rightarrow> (Some e, b, [PutObject (name b) timestamp_file []])
      | Inr _ \<Rightarrow>
          (let b1 = (if aws_creds_configured svc then
                       (if AllUsersWrite b \<noteq> ALLOWED then b\<lparr>AuthUsersWrite := ALLOWED\<rparr> else b)
                     else b\<lparr>AllUsersWrite := ALLOWED\<rparr>);
               rs = [PutObject (name b) timestamp_file [], DeleteObject (name b) timestamp_file]
           in case delete_object (s3_client svc) (name b) timestamp_file of
                Inl e \<Rightarrow> (Some e, b1, rs)
              | Inr _ \<Rightarrow> (None, b1, rs)))"

definition check_perm_write :: "S3Service \<Rightarrow> string \<Rightarrow> s3Bucket \<Rightarrow> result" where
  "check_perm_write svc now b =
     (if exists b \<noteq> BucketExists.YES then
        \<lparr>outcome = Raised (ValueError ''Bucket might not exist''), bucket = b, requests = []\<rparr>
      else
        (let timestamp_file = now @ ''.txt''
         in case check_perm_write_try svc timestamp_file b of
              (None, b1, rs) \<Rightarrow> \<lparr>outcome = Returned, bucket = b1, requests = rs\<rparr>
            | (Some e, b1, rs) \<Rightarrow>
                if access_denied e then
                  \<lparr>outcome = Returned,
                   bucket = (if aws_creds_configured svc then b1\<lparr>AuthUsersWrite := DENIED\<rparr>
                             else b1\<lparr>AllUsersWrite := DENIED\<rparr>),
                   requests = rs\<rparr>
                else \<lparr>outcome = Raised (ClientError e), bucket = b1, requests = rs\<rparr>))"

section \<open>check_perm_write_acl\<close>

text \<open>Python's \<open>sep.join(xs)\<close> on strings.\<close>

fun join :: "string \<Rightarrow> string list \<Rightarrow> string" where
  "join sep [] = []"
| "join sep [x] = x"
| "join sep (x # y # ys) = x @ sep @ join sep (y # ys)"

text \<open>
  The keyword arguments of \<open>put_bucket_acl\<close>, in the order the source inserts them into
  \<open>args\<close>; each key is inserted at most once.
\<close>

definition acl_args :: "S3Service \<Rightarrow> s3Bucket \<Rightarrow> (string \<times> string) list" where
  "acl_args svc b =
     (let readURIs = []; writeURIs = []; readAcpURIs = []; writeAcpURIs = []; fullControlURIs = [];
          readURIs = (if AuthUsersRead b = ALLOWED then readURIs @ [authUsersURI] else readURIs);
          writeURIs = (if AuthUsersWrite b = ALLOWED then writeURIs @ [authUsersURI] else writeURIs);
          readAcpURIs =
            (if AuthUsersReadACP b = ALLOWED then readAcpURIs @ [authUsersURI] else readAcpURIs);
          writeAcpURIs =
            (if AuthUsersWriteACP b = ALLOWED then writeAcpURIs @ [authUsersURI] else writeAcpURIs);
          fullControlURIs =
            (if AuthUsersFullControl b = ALLOWED then fullControlURIs @ [authUsersURI]
             else fullControlURIs);
          readURIs = (if AllUsersRead b = ALLOWED then readURIs @ [allUsersURI] else readURIs);
          writeURIs = (if AllUsersWrite b = ALLOWED then writeURIs @ [allUsersURI] else writeURIs);
          readAcpURIs =
            (if AllUsersReadACP b = ALLOWED then readAcpURIs @ [allUsersURI] else readAcpURIs);
          writeAcpURIs =
            (if AllUsersWriteACP b = ALLOWED then writeAcpURIs @ [allUsersURI] else writeAcpURIs);
          fullControlURIs =
            (if AllUsersFullControl b = ALLOWED then fullControlURIs @ [allUsersURI]
             else fullControlURIs);
          writeAcpURIs =
            (if aws_creds_configured svc then writeAcpURIs @ [authUsersURI]
             else writeAcpURIs @ [allUsersURI]);
          args = [(''Bucket'', name b)];
          args = (if length readURIs > 0 then args @ [(''GrantRead'', join '','' readURIs)] else args);
          args = (if length writeURIs > 0 then args @ [(''GrantWrite'', join '','' writeURIs)]
                  else args);
          args = (if length readAcpURIs > 0 then args @ [(''GrantReadACP'', join '','' readAcpURIs)]
                  else args);
          args = (if length writeAcpURIs > 0
                  then args @ [(''GrantWriteACP'', join '','' writeAcpURIs)] else args);
          args = (if length fullControlURIs > 0
                  then args @ [(''GrantFullControl'', join '','' fullControlURIs)] else args)
      in args)"

definition check_perm_write_acl :: "S3Service \<Rightarrow> s3Bucket \<Rightarrow> result" where
  "check_perm_write_acl svc b =
     (if exists b \<noteq> BucketExists.YES then
        \<lparr>outcome = Raised (ValueError ''Bucket might not exist''), bucket = b, requests = []\<rparr>
      else
        (let args = acl_args svc b; rs = [PutBucketAcl args]
         in case put_bucket_acl (s3_client svc) args of
              Inr _ \<Rightarrow>
                \<lparr>outcome = Returned,
                 bucket =
                   (if aws_creds_configured svc then
                      (if AllUsersWriteACP b \<noteq> ALLOWED then b\<lparr>AuthUsersWriteACP := ALLOWED\<rparr>
                       else b)
                    else b\<lparr>AllUsersWriteACP := ALLOWED\<rparr>),
                 requests = rs\<rparr>
            | Inl e \<Rightarrow>
                if access_denied e then
                  \<lparr>outcome = Returned,
                   bucket = (if aws_creds_configured svc then b\<lparr>AuthUsersWriteACP := DENIED\<rparr>
                             else b\<lparr>AllUsersWriteACP := DENIED\<rparr>),
                   requests = rs\<rparr>
                else \<lparr>outcome = Raised (ClientError e), bucket = b, requests = rs\<rparr>))"

section \<open>enumerate_bucket_objects\<close>

definition object_of_item :: "item \<Rightarrow> s3BucketObject" where
  "object_of_item it = \<lparr>key = Key it, last_modified = LastModified it, size = Size it\<rparr>"

text \<open>How control leaves the \<open>for\<close> loop over the pages: by the \<open>return\<close> inside it, by
  running out of pages, or by a \<open>ClientError\<close> from a fetch.\<close>

datatype loop_exit = EarlyReturn | Exhausted | Failed client_error

fun paginate_loop :: "s3Bucket \<Rightarrow> (client_error + page) list \<Rightarrow> loop_exit \<times> s3Bucket" where
  "paginate_loop b [] = (Exhausted, b)"
| "paginate_loop b (Inl e # ps) = (Failed e, b)"
| "paginate_loop b (Inr p # ps) =
     (case Contents p of
        None \<Rightarrow> (EarlyReturn, b\<lparr>objects_enumerated := True\<rparr>)
      | Some items \<Rightarrow>
          paginate_loop (foldl (\<lambda>b it. addObject b (object_of_item it)) b items) ps)"

definition enumerate_bucket_objects :: "S3Service \<Rightarrow> s3Bucket \<Rightarrow> result" where
  "enumerate_bucket_objects svc b =
     (case (if exists b = BucketExists.UNKNOWN then check_bucket_exists svc (S3BucketObj b)
            else Inr (b, [])) of
        Inl x \<Rightarrow> \<lparr>outcome = Raised x, bucket = b, requests = []\<rparr>
      | Inr (b0, rs0) \<Rightarrow>
          if exists b0 = BucketExists.NO then
            \<lparr>outcome = Raised (Exception ''Bucket doesn't exist''), bucket = b0, requests = rs0\<rparr>
          else
            (let rs = rs0 @ [Paginate (name b0)]
             in case paginate_loop b0 (paginate (s3_client svc) (name b0)) of
                  (EarlyReturn, b1) \<Rightarrow> \<lparr>outcome = Returned, bucket = b1, requests = rs\<rparr>
                | (Exhausted, b1) \<Rightarrow>
                    \<lparr>outcome = Returned, bucket = b1\<lparr>objects_enumerated := True\<rparr>, requests = rs\<rparr>
                | (Failed e, b1) \<Rightarrow>
                    if access_denied e then
                      \<lparr>outcome = Raised (AccessDeniedException
                                            ''AccessDenied while enumerating bucket objects''),
                       bucket = b1, requests = rs\<rparr>
                    else
                      \<lparr>outcome = Returned, bucket = b1\<lparr>objects_enumerated := True\<rparr>,
                       requests = rs\<rparr>))"

section \<open>Vocabulary of the statements\<close>

text \<open>
  The ten flags, addressed by principal class and capability, so that a statement can speak
  of all of them at once.
\<close>

datatype principal = AuthUsers | AllUsers

datatype capability = Read | Write | ReadACP | WriteACP | FullControl

fun flag :: "principal \<Rightarrow> capability \<Rightarrow> s3Bucket \<Rightarrow> Permission" where
  "flag AuthUsers Read b = AuthUsersRead b"
| "flag AuthUsers Write b = AuthUsersWrite b"
| "flag AuthUsers ReadACP b = AuthUsersReadACP b"
| "flag AuthUsers WriteACP b = AuthUsersWriteACP b"
| "flag AuthUsers FullControl b = AuthUsersFullControl b"
| "flag AllUsers Read b = AllUsersRead b"
| "flag AllUsers Write b = AllUsersWrite b"
| "flag AllUsers ReadACP b = AllUsersReadACP b"
| "flag AllUsers WriteACP b = AllUsersWriteACP b"
| "flag AllUsers FullControl b = AllUsersFullControl b"

text \<open>The spec's reading of a grant: the group URI of each principal class, and the
  capabilities each ACL permission value conveys.\<close>

fun group_uri :: "principal \<Rightarrow> string" where
  "group_uri AuthUsers = ''http://acs.amazonaws.com/groups/global/AuthenticatedUsers''"
| "group_uri AllUsers = ''http://acs.amazonaws.com/groups/global/AllUsers''"

fun conveys :: "string \<Rightarrow> capability \<Rightarrow> bool" where
  "conveys perm Read \<longleftrightarrow> perm = ''FULL_CONTROL'' \<or> perm = ''READ''"
| "conveys perm Write \<longleftrightarrow> perm = ''FULL_CONTROL'' \<or> perm = ''WRITE''"
| "conveys perm ReadACP \<longleftrightarrow> perm = ''FULL_CONTROL'' \<or> perm = ''READ_ACP''"
| "conveys perm WriteACP \<longleftrightarrow> perm = ''FULL_CONTROL'' \<or> perm = ''WRITE_ACP''"
| "conveys perm FullControl \<longleftrightarrow> perm = ''FULL_CONTROL''"

definition grant_gives :: "grant \<Rightarrow> principal \<Rightarrow> capability \<Rightarrow> bool" where
  "grant_gives g p c \<longleftrightarrow>
     Type (Grantee g) = ''Group'' \<and> URI (Grantee g) = Some (group_uri p) \<and>
     conveys (Permission g) c"

definition granted :: "grant list \<Rightarrow> principal \<Rightarrow> capability \<Rightarrow> bool" where
  "granted gs p c \<longleftrightarrow> list_ex (\<lambda>g. grant_gives g p c) gs"

text \<open>The spec's reading of the grant request: per capability, the URIs of the principal
  classes whose flag is ALLOWED, and on the write-ACP list the class under test as well.\<close>

fun principal_uri :: "principal \<Rightarrow> string" where
  "principal_uri AuthUsers = ''uri=http://acs.amazonaws.com/groups/global/AuthenticatedUsers''"
| "principal_uri AllUsers = ''uri=http://acs.amazonaws.com/groups/global/AllUsers''"

fun grant_param :: "capability \<Rightarrow> string" where
  "grant_param Read = ''GrantRead''"
| "grant_param Write = ''GrantWrite''"
| "grant_param ReadACP = ''GrantReadACP''"
| "grant_param WriteACP = ''GrantWriteACP''"
| "grant_param FullControl = ''GrantFullControl''"

definition tested_principal :: "S3Service \<Rightarrow> principal" where
  "tested_principal svc = (if aws_creds_configured svc then AuthUsers else AllUsers)"

definition grant_list :: "S3Service \<Rightarrow> s3Bucket \<Rightarrow> capability \<Rightarrow> string list" where
  "grant_list svc b c =
     map principal_uri (filter (\<lambda>p. flag p c b = ALLOWED) [AuthUsers, AllUsers]) @
     (if c = WriteACP then [principal_uri (tested_principal svc)] else [])"

text \<open>A comma-separated list, as the grant parameters of the backend carry it: the strings
  side by side, each one after the first preceded by a comma. Splitting at a separator
  character reads such a list back.\<close>

definition comma_separated :: "string list \<Rightarrow> string" where
  "comma_separated xs =
     (case xs of [] \<Rightarrow> [] | x # ys \<Rightarrow> x @ concat (map (\<lambda>y. CHR '','' # y) ys))"

fun split_on :: "char \<Rightarrow> string \<Rightarrow> string list" where
  "split_on c [] = [[]]"
| "split_on c (x # xs) =
     (if x = c then [] # split_on c xs
      else (case split_on c xs of [] \<Rightarrow> [[x]] | w # ws \<Rightarrow> (x # w) # ws))"

definition grant_entry :: "S3Service \<Rightarrow> s3Bucket \<Rightarrow> capability \<Rightarrow> (string \<times> string) list" where
  "grant_entry svc b c =
     (if grant_list svc b c = [] then []
      else [(grant_param c, comma_separated (grant_list svc b c))])"

text \<open>The objects one page contributes, and the test for the error code \<open>"404"\<close>.\<close>

definition page_objects :: "page \<Rightarrow> s3BucketObject list" where
  "page_objects q = (case Contents q of None \<Rightarrow> [] | Some items \<Rightarrow> map object_of_item items)"

definition is_404 :: "client_error + unit \<Rightarrow> bool" where
  "is_404 r = (case r of Inl e \<Rightarrow> Code e = ''404'' | Inr _ \<Rightarrow> False)"

text \<open>A call that failed with an error code of the access-denied class.\<close>

definition denied :: "client_error + 'a \<Rightarrow> bool" where
  "denied r = (case r of Inl e \<Rightarrow> access_denied e | Inr _ \<Rightarrow> False)"

text \<open>No grant list is stored on the bucket: no ACL at all, or an ACL without
  \<open>'Grants'\<close>.\<close>

definition no_grant_list :: "s3Bucket \<Rightarrow> bool" where
  "no_grant_list b = (case foundACL b of None \<Rightarrow> True | Some a \<Rightarrow> Grants a = None)"

text \<open>Paging is reached: the bucket is known to exist, or its existence is unknown and the
  existence probe that \<open>enumerate_bucket_objects\<close> then runs does not meet \<open>"404"\<close>. The
  requests sent up to and including the listing follow from the same test.\<close>

definition paging_starts :: "S3Service \<Rightarrow> s3Bucket \<Rightarrow> bool" where
  "paging_starts svc b \<longleftrightarrow>
     exists b = BucketExists.YES \<or>
     (exists b = BucketExists.UNKNOWN \<and> \<not> is_404 (head_bucket (s3_client svc) (name b)))"

definition listing_requests :: "s3Bucket \<Rightarrow> request list" where
  "listing_requests b =
     (if exists b = BucketExists.UNKNOWN then [HeadBucket (name b)] else []) @ [Paginate (name b)]"

text \<open>The write rule the probes share: in credentialed mode the AuthUsers flag is written
  only when the AllUsers flag is not ALLOWED; in uncredentialed mode the AllUsers flag is
  written.\<close>

definition read_allowed :: "S3Service \<Rightarrow> s3Bucket \<Rightarrow> s3Bucket" where
  "read_allowed svc b =
     (if aws_creds_configured svc then
        (if AllUsersRead b = ALLOWED then b else b\<lparr>AuthUsersRead := ALLOWED\<rparr>)
      else b\<lparr>AllUsersRead := ALLOWED\<rparr>)"

definition write_allowed :: "S3Service \<Rightarrow> s3Bucket \<Rightarrow> s3Bucket" where
  "write_allowed svc b =
     (if aws_creds_configured svc then
        (if AllUsersWrite b = ALLOWED then b else b\<lparr>AuthUsersWrite := ALLOWED\<rparr>)
      else b\<lparr>AllUsersWrite := ALLOWED\<rparr>)"

section \<open>Scenarios\<close>

text \<open>Modelled from the spec: the constructor of \<open>s3Bucket\<close>, which takes the name and
  leaves every other field at its default.\<close>

definition s3Bucket_init :: "string \<Rightarrow> s3Bucket" where
  "s3Bucket_init n =
     \<lparr>name = n, exists = BucketExists.UNKNOWN, foundACL = None,
      AuthUsersRead = Permission.UNKNOWN, AuthUsersWrite = Permission.UNKNOWN,
      AuthUsersReadACP = Permission.UNKNOWN, AuthUsersWriteACP = Permission.UNKNOWN,
      AuthUsersFullControl = Permission.UNKNOWN,
      AllUsersRead = Permission.UNKNOWN, AllUsersWrite = Permission.UNKNOWN,
      AllUsersReadACP = Permission.UNKNOWN, AllUsersWriteACP = Permission.UNKNOWN,
      AllUsersFullControl = Permission.UNKNOWN,
      objects = [], objects_enumerated = False\<rparr>"

definition found_bucket :: s3Bucket where
  "found_bucket = (s3Bucket_init ''photos'')\<lparr>exists := BucketExists.YES\<rparr>"

text \<open>A bucket found open to everyone for reading, writing and ACL writing, and to
  authenticated users for reading and ACL writing.\<close>

definition open_bucket :: s3Bucket where
  "open_bucket =
     found_bucket\<lparr>AuthUsersRead := ALLOWED, AuthUsersWriteACP := ALLOWED, AllUsersRead := ALLOWED,
       AllUsersWrite := ALLOWED, AllUsersWriteACP := ALLOWED\<rparr>"

definition failure :: "string \<Rightarrow> client_error" where
  "failure c = \<lparr>Code = c, Message = []\<rparr>"

text \<open>A backend on which every call succeeds: the ACL has an empty grant list and the
  listing has no page.\<close>

definition open_client :: s3_client where
  "open_client =
     \<lparr>head_bucket = (\<lambda>_. Inr ()),
      get_bucket_acl = (\<lambda>_. Inr \<lparr>Grants = Some []\<rparr>),
      list_objects_v2 = (\<lambda>_ _. Inr ()),
      put_object = (\<lambda>_ _ _. Inr ()),
      delete_object = (\<lambda>_ _. Inr ()),
      put_bucket_acl = (\<lambda>_. Inr ()),
      paginate = (\<lambda>_. [])\<rparr>"

definition anonymous :: "s3_client \<Rightarrow> S3Service" where
  "anonymous c = \<lparr>aws_creds_configured = False, s3_client = c\<rparr>"

definition credentialed :: "s3_client \<Rightarrow> S3Service" where
  "credentialed c = \<lparr>aws_creds_configured = True, s3_client = c\<rparr>"

text \<open>The grant of FULL_CONTROL to the AllUsers group.\<close>

definition all_users_full_control :: grant where
  "all_users_full_control =
     \<lparr>Grantee = \<lparr>Type = ''Group'',
                 URI = Some ''http://acs.amazonaws.com/groups/global/AllUsers''\<rparr>,
      Permission = ''FULL_CONTROL''\<rparr>"

text \<open>Three listings: one whose first page has no \<open>'Contents'\<close>, one whose second page has
  none, and one whose second fetch fails with a code outside the access-denied class.\<close>

definition three_pages :: "(client_error + page) list" where
  "three_pages =
     [Inr \<lparr>Contents = None\<rparr>,
      Inr \<lparr>Contents = Some [\<lparr>Key = ''a.txt'', LastModified = 1700000000, Size = 12\<rparr>]\<rparr>,
      Inr \<lparr>Contents = Some [\<lparr>Key = ''b.txt'', LastModified = 1700000001, Size = 7\<rparr>]\<rparr>]"

definition gap_pages :: "(client_error + page) list" where
  "gap_pages =
     [Inr \<lparr>Contents = Some [\<lparr>Key = ''a.txt'', LastModified = 1700000000, Size = 12\<rparr>]\<rparr>,
      Inr \<lparr>Contents = None\<rparr>,
      Inr \<lparr>Contents = Some [\<lparr>Key = ''b.txt'', LastModified = 1700000001, Size = 7\<rparr>]\<rparr>]"

definition failing_listing :: "(client_error + page) list" where
  "failing_listing =
     [Inr \<lparr>Contents = Some [\<lparr>Key = ''a.txt'', LastModified = 1700000000, Size = 12\<rparr>]\<rparr>,
      Inl (failure ''InternalError'')]"

section \<open>Lemmas on the loops\<close>

lemma foldl_addObject:
  "foldl (\<lambda>b it. addObject b (object_of_item it)) b items =
     b\<lparr>objects := objects b @ map object_of_item items\<rparr>"
  by (induction items arbitrary: b) (simp_all add: addObject_def)

lemma paginate_loop_prefix:
  "\<forall>q \<in> set pre. Contents q \<noteq> None \<Longrightarrow>
   paginate_loop b (map Inr pre @ rest) =
     paginate_loop (b\<lparr>objects := objects b @ concat (map page_objects pre)\<rparr>) rest"
proof (induction pre arbitrary: b)
  case Nil
  then show ?case by simp
next
  case (Cons q pre)
  from Cons.prems obtain items where q: "Contents q = Some items" by auto
  from Cons.prems have "\<forall>q \<in> set pre. Contents q \<noteq> None" by simp
  from Cons.IH [OF this] show ?case
    by (simp add: q foldl_addObject page_objects_def)
qed

section \<open>The existence probe\<close>

text \<open>
  Claim C6. Called with a bucket entity, \<open>check_bucket_exists\<close> sets \<open>exists\<close> to NO exactly
  when the backend answers with error code \<open>"404"\<close> and to YES on every other outcome,
  success or any other error code; it writes no other field, sends the one existence
  request and never raises.
\<close>

theorem check_bucket_exists_writes_exists:
  "check_bucket_exists svc (S3BucketObj b) =
     Inr (b\<lparr>exists := (if is_404 (head_bucket (s3_client svc) (name b)) then BucketExists.NO
                        else BucketExists.YES)\<rparr>,
          [HeadBucket (name b)])"
  by (simp add: check_bucket_exists_def is_404_def split: sum.split)

theorem check_bucket_exists_writes_exists_witness:
  "check_bucket_exists (anonymous (open_client\<lparr>head_bucket := (\<lambda>_. Inl (failure ''404''))\<rparr>))
     (S3BucketObj (s3Bucket_init ''photos'')) =
     Inr ((s3Bucket_init ''photos'')\<lparr>exists := BucketExists.NO\<rparr>, [HeadBucket ''photos''])
   \<and> check_bucket_exists
     (anonymous (open_client\<lparr>head_bucket := (\<lambda>_. Inl (failure ''AccessDenied''))\<rparr>))
     (S3BucketObj (s3Bucket_init ''photos'')) =
     Inr ((s3Bucket_init ''photos'')\<lparr>exists := BucketExists.YES\<rparr>, [HeadBucket ''photos''])"
  using check_bucket_exists_writes_exists
    [of "anonymous (open_client\<lparr>head_bucket := (\<lambda>_. Inl (failure ''404''))\<rparr>)"
        "s3Bucket_init ''photos''"]
    check_bucket_exists_writes_exists
    [of "anonymous (open_client\<lparr>head_bucket := (\<lambda>_. Inl (failure ''AccessDenied''))\<rparr>)"
        "s3Bucket_init ''photos''"]
  by (simp add: is_404_def failure_def open_client_def s3Bucket_init_def anonymous_def)

section \<open>The guard of the permission probes\<close>

text \<open>
  Claim C7. On a bucket whose \<open>exists\<close> field is not YES (NO or still UNKNOWN), each of
  \<open>check_perm_read_acl\<close>, \<open>check_perm_read\<close>, \<open>check_perm_write\<close> and \<open>check_perm_write_acl\<close>
  raises the \<open>ValueError\<close> "Bucket might not exist", leaves the bucket as it was and sends
  no request.
\<close>

theorem probes_require_existing_bucket:
  assumes "exists b \<noteq> BucketExists.YES"
  shows "check_perm_read_acl svc b =
           \<lparr>outcome = Raised (ValueError ''Bucket might not exist''), bucket = b, requests = []\<rparr>
       \<and> check_perm_read svc b =
           \<lparr>outcome = Raised (ValueError ''Bucket might not exist''), bucket = b, requests = []\<rparr>
       \<and> check_perm_write svc now b =
           \<lparr>outcome = Raised (ValueError ''Bucket might not exist''), bucket = b, requests = []\<rparr>
       \<and> check_perm_write_acl svc b =
           \<lparr>outcome = Raised (ValueError ''Bucket might not exist''), bucket = b, requests = []\<rparr>"
  using assms
  by (simp add: check_perm_read_acl_def check_perm_read_def check_perm_write_def
      check_perm_write_acl_def)

theorem probes_require_existing_bucket_witness:
  "exists ((s3Bucket_init ''photos'')\<lparr>exists := BucketExists.NO\<rparr>) \<noteq> BucketExists.YES
   \<and> outcome (check_perm_read_acl (anonymous open_client)
        ((s3Bucket_init ''photos'')\<lparr>exists := BucketExists.NO\<rparr>)) =
       Raised (ValueError ''Bucket might not exist'')
   \<and> bucket (check_perm_write (anonymous open_client) ''1700000000.25''
        ((s3Bucket_init ''photos'')\<lparr>exists := BucketExists.NO\<rparr>)) =
       (s3Bucket_init ''photos'')\<lparr>exists := BucketExists.NO\<rparr>
   \<and> requests (check_perm_write_acl (anonymous open_client)
        ((s3Bucket_init ''photos'')\<lparr>exists := BucketExists.NO\<rparr>)) = []
   \<and> outcome (check_perm_read (anonymous open_client)
        ((s3Bucket_init ''photos'')\<lparr>exists := BucketExists.NO\<rparr>)) =
       Raised (ValueError ''Bucket might not exist'')"
proof -
  have h: "exists ((s3Bucket_init ''photos'')\<lparr>exists := BucketExists.NO\<rparr>) \<noteq> BucketExists.YES"
    by simp
  show ?thesis
    using h probes_require_existing_bucket [OF h, of "anonymous open_client" "''1700000000.25''"]
    by simp
qed

section \<open>The write rule of the read and write probes\<close>

text \<open>
  Claim C5. When the listing of the read probe succeeds, and when the upload of the write
  probe succeeds, the flag of that capability is written by the shared rule: in
  uncredentialed mode the AllUsers flag becomes ALLOWED unconditionally; in credentialed
  mode the AuthUsers flag becomes ALLOWED only when the AllUsers flag is not already
  ALLOWED, and the bucket is otherwise left untouched. For the write probe this is the
  bucket as the \<open>try\<close> block leaves it, and the bucket the probe ends with whenever the
  cleanup delete does not fail with an access-denied-class code.
\<close>

theorem successful_probe_write_rule:
  assumes "exists b = BucketExists.YES"
  shows "(list_objects_v2 (s3_client svc) (name b) 0 = Inr () \<longrightarrow>
            check_perm_read svc b =
              \<lparr>outcome = Returned, bucket = read_allowed svc b,
               requests = [ListObjectsV2 (name b) 0]\<rparr>)
       \<and> (put_object (s3_client svc) (name b) (now @ ''.txt'') [] = Inr () \<longrightarrow>
            fst (snd (check_perm_write_try svc (now @ ''.txt'') b)) = write_allowed svc b)
       \<and> (put_object (s3_client svc) (name b) (now @ ''.txt'') [] = Inr () \<and>
          \<not> denied (delete_object (s3_client svc) (name b) (now @ ''.txt'')) \<longrightarrow>
            bucket (check_perm_write svc now b) = write_allowed svc b)"
proof (intro conjI impI)
  assume "list_objects_v2 (s3_client svc) (name b) 0 = Inr ()"
  with assms show "check_perm_read svc b =
      \<lparr>outcome = Returned, bucket = read_allowed svc b, requests = [ListObjectsV2 (name b) 0]\<rparr>"
    by (simp add: check_perm_read_def read_allowed_def Let_def)
next
  assume "put_object (s3_client svc) (name b) (now @ ''.txt'') [] = Inr ()"
  then show "fst (snd (check_perm_write_try svc (now @ ''.txt'') b)) = write_allowed svc b"
    by (simp add: check_perm_write_try_def write_allowed_def Let_def split: sum.split)
next
  assume a: "put_object (s3_client svc) (name b) (now @ ''.txt'') [] = Inr () \<and>
    \<not> denied (delete_object (s3_client svc) (name b) (now @ ''.txt''))"
  show "bucket (check_perm_write svc now b) = write_allowed svc b"
  proof (cases "delete_object (s3_client svc) (name b) (now @ ''.txt'')")
    case (Inl e)
    with a assms show ?thesis
      by (simp add: check_perm_write_def check_perm_write_try_def write_allowed_def denied_def
          Let_def)
  next
    case (Inr u)
    with a assms show ?thesis
      by (simp add: check_perm_write_def check_perm_write_try_def write_allowed_def Let_def)
  qed
qed

theorem successful_probe_write_rule_witness:
  "exists found_bucket = BucketExists.YES
   \<and> AllUsersRead (bucket (check_perm_read (anonymous open_client) found_bucket)) = ALLOWED
   \<and> AllUsersWrite (bucket (check_perm_write (anonymous open_client) ''1700000000.25''
        found_bucket)) = ALLOWED
   \<and> AuthUsersWrite (bucket (check_perm_write (credentialed open_client) ''1700000000.25''
        (found_bucket\<lparr>AllUsersWrite := ALLOWED\<rparr>))) = Permission.UNKNOWN
   \<and> AuthUsersRead (bucket (check_perm_read (credentialed open_client) found_bucket)) = ALLOWED"
proof -
  have h: "exists found_bucket = BucketExists.YES"
    and h': "exists (found_bucket\<lparr>AllUsersWrite := ALLOWED\<rparr>) = BucketExists.YES"
    by (simp_all add: found_bucket_def)
  show ?thesis
    using h successful_probe_write_rule [OF h, of "anonymous open_client" "''1700000000.25''"]
      successful_probe_write_rule [OF h, of "credentialed open_client" "''1700000000.25''"]
      successful_probe_write_rule [OF h', of "credentialed open_client" "''1700000000.25''"]
    by (simp add: anonymous_def credentialed_def open_client_def read_allowed_def
        write_allowed_def denied_def found_bucket_def s3Bucket_init_def)
qed

section \<open>A failing cleanup delete in the write probe\<close>

text \<open>
  Claim C10, as the code has it. In \<open>check_perm_write\<close>, when the upload succeeds and the
  cleanup delete then fails: with an access-denied-class code the probe returns and the
  write flag of the mode under test ends at DENIED, overwriting what the upload's success
  had assigned; with any other code that \<open>ClientError\<close> is raised to the caller and the
  bucket stays as the success branch left it. That flag is then ALLOWED in uncredentialed
  mode, and in credentialed mode when AllUsersWrite was not ALLOWED; in credentialed mode
  with AllUsersWrite already ALLOWED the success assigns nothing and the bucket is as it
  was before the probe.
\<close>

theorem cleanup_failure_after_upload:
  assumes "exists b = BucketExists.YES"
    and "put_object (s3_client svc) (name b) (now @ ''.txt'') [] = Inr ()"
    and "delete_object (s3_client svc) (name b) (now @ ''.txt'') = Inl e"
  shows "(access_denied e \<longrightarrow>
            outcome (check_perm_write svc now b) = Returned
          \<and> bucket (check_perm_write svc now b) =
              (if aws_creds_configured svc then b\<lparr>AuthUsersWrite := DENIED\<rparr>
               else b\<lparr>AllUsersWrite := DENIED\<rparr>))
       \<and> (\<not> access_denied e \<longrightarrow>
            outcome (check_perm_write svc now b) = Raised (ClientError e)
          \<and> bucket (check_perm_write svc now b) = write_allowed svc b
          \<and> (\<not> aws_creds_configured svc \<longrightarrow>
               AllUsersWrite (bucket (check_perm_write svc now b)) = ALLOWED)
          \<and> (aws_creds_configured svc \<and> AllUsersWrite b \<noteq> ALLOWED \<longrightarrow>
               AuthUsersWrite (bucket (check_perm_write svc now b)) = ALLOWED)
          \<and> (aws_creds_configured svc \<and> AllUsersWrite b = ALLOWED \<longrightarrow>
               bucket (check_perm_write svc now b) = b))"
  using assms
  by (simp add: check_perm_write_def check_perm_write_try_def write_allowed_def Let_def)

theorem cleanup_failure_after_upload_witness:
  "exists found_bucket = BucketExists.YES
   \<and> AllUsersWrite (bucket (check_perm_write
        (anonymous (open_client\<lparr>delete_object := (\<lambda>_ _. Inl (failure ''AccessDenied''))\<rparr>))
        ''1700000000.25'' found_bucket)) = DENIED
   \<and> outcome (check_perm_write
        (anonymous (open_client\<lparr>delete_object := (\<lambda>_ _. Inl (failure ''InternalError''))\<rparr>))
        ''1700000000.25'' found_bucket) = Raised (ClientError (failure ''InternalError''))
   \<and> AllUsersWrite (bucket (check_perm_write
        (anonymous (open_client\<lparr>delete_object := (\<lambda>_ _. Inl (failure ''InternalError''))\<rparr>))
        ''1700000000.25'' found_bucket)) = ALLOWED
   \<and> AuthUsersWrite (bucket (check_perm_write
        (credentialed (open_client\<lparr>delete_object := (\<lambda>_ _. Inl (failure ''InternalError''))\<rparr>))
        ''1700000000.25'' found_bucket)) = ALLOWED
   \<and> AuthUsersWrite (bucket (check_perm_write
        (credentialed (open_client\<lparr>delete_object := (\<lambda>_ _. Inl (failure ''AccessDenied''))\<rparr>))
        ''1700000000.25'' found_bucket)) = DENIED
   \<and> bucket (check_perm_write
        (credentialed (open_client\<lparr>delete_object := (\<lambda>_ _. Inl (failure ''InternalError''))\<rparr>))
        ''1700000000.25'' (found_bucket\<lparr>AllUsersWrite := ALLOWED\<rparr>)) =
       found_bucket\<lparr>AllUsersWrite := ALLOWED\<rparr>"
proof -
  have h: "exists found_bucket = BucketExists.YES"
    and h': "exists (found_bucket\<lparr>AllUsersWrite := ALLOWED\<rparr>) = BucketExists.YES"
    by (simp_all add: found_bucket_def)
  have p: "put_object (s3_client (anonymous (open_client\<lparr>delete_object := d\<rparr>)))
             (name bkt) (''1700000000.25'' @ ''.txt'') [] = Inr ()"
    and q: "put_object (s3_client (credentialed (open_client\<lparr>delete_object := d\<rparr>)))
             (name bkt) (''1700000000.25'' @ ''.txt'') [] = Inr ()" for d bkt
    by (simp_all add: anonymous_def credentialed_def open_client_def)
  have d: "delete_object (s3_client (anonymous (open_client\<lparr>delete_object := (\<lambda>_ _. Inl x)\<rparr>)))
             (name bkt) (''1700000000.25'' @ ''.txt'') = Inl x"
    and d': "delete_object
             (s3_client (credentialed (open_client\<lparr>delete_object := (\<lambda>_ _. Inl x)\<rparr>)))
             (name bkt) (''1700000000.25'' @ ''.txt'') = Inl x" for x bkt
    by (simp_all add: anonymous_def credentialed_def open_client_def)
  have u: "AllUsersWrite found_bucket \<noteq> ALLOWED"
    by (simp add: found_bucket_def s3Bucket_init_def)
  show ?thesis
    using h u cleanup_failure_after_upload [OF h p d, of "failure ''AccessDenied''"]
      cleanup_failure_after_upload [OF h p d, of "failure ''InternalError''"]
      cleanup_failure_after_upload [OF h q d', of "failure ''InternalError''"]
      cleanup_failure_after_upload [OF h q d', of "failure ''AccessDenied''"]
      cleanup_failure_after_upload [OF h' q d', of "failure ''InternalError''"]
    by (simp add: anonymous_def credentialed_def access_denied_def failure_def
        write_allowed_def)
qed

text \<open>
  The claim as worded takes the upload's success to have set the flag of the mode under
  test to ALLOWED, and has it remain ALLOWED when the delete fails with another code. In
  credentialed mode on a bucket whose AllUsersWrite is already ALLOWED the upload succeeds,
  the delete fails with \<open>InternalError\<close> and is raised, and AuthUsersWrite is still UNKNOWN.
\<close>

theorem cleanup_failure_after_upload_counterexample:
  "exists (found_bucket\<lparr>AllUsersWrite := ALLOWED\<rparr>) = BucketExists.YES
   \<and> requests (check_perm_write
        (credentialed (open_client\<lparr>delete_object := (\<lambda>_ _. Inl (failure ''InternalError''))\<rparr>))
        ''1700000000.25'' (found_bucket\<lparr>AllUsersWrite := ALLOWED\<rparr>)) =
       [PutObject ''photos'' ''1700000000.25.txt'' [],
        DeleteObject ''photos'' ''1700000000.25.txt'']
   \<and> outcome (check_perm_write
        (credentialed (open_client\<lparr>delete_object := (\<lambda>_ _. Inl (failure ''InternalError''))\<rparr>))
        ''1700000000.25'' (found_bucket\<lparr>AllUsersWrite := ALLOWED\<rparr>)) =
       Raised (ClientError (failure ''InternalError''))
   \<and> AuthUsersWrite (bucket (check_perm_write
        (credentialed (open_client\<lparr>delete_object := (\<lambda>_ _. Inl (failure ''InternalError''))\<rparr>))
        ''1700000000.25'' (found_bucket\<lparr>AllUsersWrite := ALLOWED\<rparr>))) = Permission.UNKNOWN"
  by (simp add: check_perm_write_def check_perm_write_try_def credentialed_def open_client_def
      found_bucket_def s3Bucket_init_def failure_def access_denied_def Let_def)

section \<open>The requests of the write probe\<close>

text \<open>
  Claim C2, as the code has it. On a bucket with \<open>exists\<close> at YES, \<open>check_perm_write\<close> uploads
  a zero-byte object under the key made of the timestamp and \<open>.txt\<close>; when the upload
  succeeds it deletes that same key immediately after, and when the upload fails it sends
  no delete. A delete that fails with a code outside the access-denied class is raised to
  the caller.
\<close>

theorem check_perm_write_requests:
  assumes "exists b = BucketExists.YES"
  shows "requests (check_perm_write svc now b) =
           (case put_object (s3_client svc) (name b) (now @ ''.txt'') [] of
              Inl _ \<Rightarrow> [PutObject (name b) (now @ ''.txt'') []]
            | Inr _ \<Rightarrow> [PutObject (name b) (now @ ''.txt'') [],
                        DeleteObject (name b) (now @ ''.txt'')])
       \<and> (put_object (s3_client svc) (name b) (now @ ''.txt'') [] = Inr () \<and>
          delete_object (s3_client svc) (name b) (now @ ''.txt'') = Inl e \<and>
          \<not> access_denied e \<longrightarrow>
            outcome (check_perm_write svc now b) = Raised (ClientError e))"
proof (intro conjI impI)
  show "requests (check_perm_write svc now b) =
           (case put_object (s3_client svc) (name b) (now @ ''.txt'') [] of
              Inl _ \<Rightarrow> [PutObject (name b) (now @ ''.txt'') []]
            | Inr _ \<Rightarrow> [PutObject (name b) (now @ ''.txt'') [],
                        DeleteObject (name b) (now @ ''.txt'')])"
  proof (cases "put_object (s3_client svc) (name b) (now @ ''.txt'') []")
    case (Inl x)
    with assms show ?thesis
      by (simp add: check_perm_write_def check_perm_write_try_def Let_def)
  next
    case (Inr u)
    with assms show ?thesis
      by (cases "delete_object (s3_client svc) (name b) (now @ ''.txt'')")
        (simp_all add: check_perm_write_def check_perm_write_try_def Let_def)
  qed
next
  assume "put_object (s3_client svc) (name b) (now @ ''.txt'') [] = Inr () \<and>
          delete_object (s3_client svc) (name b) (now @ ''.txt'') = Inl e \<and>
          \<not> access_denied e"
  with assms show "outcome (check_perm_write svc now b) = Raised (ClientError e)"
    by (simp add: check_perm_write_def check_perm_write_try_def Let_def)
qed

theorem check_perm_write_requests_witness:
  "exists found_bucket = BucketExists.YES
   \<and> requests (check_perm_write (anonymous open_client) ''1700000000.25'' found_bucket) =
       [PutObject ''photos'' ''1700000000.25.txt'' [],
        DeleteObject ''photos'' ''1700000000.25.txt'']
   \<and> requests (check_perm_write
        (credentialed (open_client\<lparr>put_object := (\<lambda>_ _ _. Inl (failure ''AccessDenied''))\<rparr>))
        ''1700000000.25'' found_bucket) = [PutObject ''photos'' ''1700000000.25.txt'' []]"
proof -
  have h: "exists found_bucket = BucketExists.YES"
    by (simp add: found_bucket_def)
  show ?thesis
    using h check_perm_write_requests [OF h, of "anonymous open_client" "''1700000000.25''"]
      check_perm_write_requests [OF h,
        of "credentialed (open_client\<lparr>put_object := (\<lambda>_ _ _. Inl (failure ''AccessDenied''))\<rparr>)"
           "''1700000000.25''"]
    by (simp add: anonymous_def credentialed_def open_client_def found_bucket_def
        s3Bucket_init_def)
qed

text \<open>
  The claim as the spec words it (the delete follows whatever the upload's outcome, and its
  result never reaches the caller) fails: after a denied upload the only request is the
  upload, and a delete failing with \<open>InternalError\<close> is raised.
\<close>

theorem check_perm_write_cleanup_counterexample:
  "requests (check_perm_write
      (anonymous (open_client\<lparr>put_object := (\<lambda>_ _ _. Inl (failure ''AccessDenied''))\<rparr>))
      ''1700000000.25'' found_bucket) = [PutObject ''photos'' ''1700000000.25.txt'' []]
   \<and> outcome (check_perm_write
      (anonymous (open_client\<lparr>delete_object := (\<lambda>_ _. Inl (failure ''InternalError''))\<rparr>))
      ''1700000000.25'' found_bucket) = Raised (ClientError (failure ''InternalError''))"
  by (simp add: check_perm_write_def check_perm_write_try_def anonymous_def open_client_def
      found_bucket_def s3Bucket_init_def failure_def access_denied_def Let_def)

section \<open>A denied ACL read\<close>

text \<open>
  Claim C9, as the code has it. On a bucket with \<open>exists\<close> at YES whose ACL read fails with
  an access-denied-class code, \<open>check_perm_read_acl\<close> sets AuthUsersReadACP (credentialed
  mode) or AllUsersReadACP (uncredentialed mode) to DENIED, then runs \<open>parse_found_acl\<close> on
  the bucket and returns. When no grant list is stored on the bucket that run changes
  nothing, so exactly that one flag is written and every other field is as before.
\<close>

theorem read_acl_denied_frame:
  assumes "exists b = BucketExists.YES"
    and "get_bucket_acl (s3_client svc) (name b) = Inl e"
    and "access_denied e"
  shows "check_perm_read_acl svc b =
           \<lparr>outcome = Returned,
            bucket = parse_found_acl
              (if aws_creds_configured svc then b\<lparr>AuthUsersReadACP := DENIED\<rparr>
               else b\<lparr>AllUsersReadACP := DENIED\<rparr>),
            requests = [GetBucketAcl (name b)]\<rparr>
       \<and> (no_grant_list b \<longrightarrow>
            bucket (check_perm_read_acl svc b) =
              (if aws_creds_configured svc then b\<lparr>AuthUsersReadACP := DENIED\<rparr>
               else b\<lparr>AllUsersReadACP := DENIED\<rparr>))"
  using assms
  by (simp add: check_perm_read_acl_def parse_found_acl_def no_grant_list_def
      split: option.splits)

theorem read_acl_denied_frame_witness:
  "exists found_bucket = BucketExists.YES
   \<and> access_denied (failure ''AllAccessDisabled'')
   \<and> no_grant_list found_bucket
   \<and> check_perm_read_acl
        (credentialed (open_client\<lparr>get_bucket_acl := (\<lambda>_. Inl (failure ''AllAccessDisabled''))\<rparr>))
        found_bucket =
       \<lparr>outcome = Returned, bucket = found_bucket\<lparr>AuthUsersReadACP := DENIED\<rparr>,
        requests = [GetBucketAcl ''photos'']\<rparr>"
proof -
  have h: "exists found_bucket = BucketExists.YES"
    by (simp add: found_bucket_def)
  have g: "get_bucket_acl
      (s3_client (credentialed
        (open_client\<lparr>get_bucket_acl := (\<lambda>_. Inl (failure ''AllAccessDisabled''))\<rparr>)))
      (name found_bucket) = Inl (failure ''AllAccessDisabled'')"
    by (simp add: credentialed_def)
  have a: "access_denied (failure ''AllAccessDisabled'')"
    by (simp add: access_denied_def failure_def)
  have n: "no_grant_list found_bucket"
    by (simp add: no_grant_list_def found_bucket_def s3Bucket_init_def)
  show ?thesis
    using h a n read_acl_denied_frame [OF h g a]
    by (simp add: credentialed_def parse_found_acl_def found_bucket_def s3Bucket_init_def)
qed

text \<open>
  Without the condition on the stored ACL the frame fails: on a bucket that carries an ACL
  with an empty grant list from an earlier read, the interpretation run after the denied
  read also turns AllUsersRead from UNKNOWN to DENIED.
\<close>

theorem read_acl_denied_counterexample:
  "exists (found_bucket\<lparr>foundACL := Some \<lparr>Grants = Some []\<rparr>\<rparr>) = BucketExists.YES
   \<and> AllUsersRead (found_bucket\<lparr>foundACL := Some \<lparr>Grants = Some []\<rparr>\<rparr>) = Permission.UNKNOWN
   \<and> outcome (check_perm_read_acl
        (anonymous (open_client\<lparr>get_bucket_acl := (\<lambda>_. Inl (failure ''AccessDenied''))\<rparr>))
        (found_bucket\<lparr>foundACL := Some \<lparr>Grants = Some []\<rparr>\<rparr>)) = Returned
   \<and> AllUsersReadACP (bucket (check_perm_read_acl
        (anonymous (open_client\<lparr>get_bucket_acl := (\<lambda>_. Inl (failure ''AccessDenied''))\<rparr>))
        (found_bucket\<lparr>foundACL := Some \<lparr>Grants = Some []\<rparr>\<rparr>))) = DENIED
   \<and> AllUsersRead (bucket (check_perm_read_acl
        (anonymous (open_client\<lparr>get_bucket_acl := (\<lambda>_. Inl (failure ''AccessDenied''))\<rparr>))
        (found_bucket\<lparr>foundACL := Some \<lparr>Grants = Some []\<rparr>\<rparr>))) = DENIED"
  by (simp add: check_perm_read_acl_def parse_found_acl_def deny_unknown_def anonymous_def
      open_client_def found_bucket_def s3Bucket_init_def failure_def access_denied_def)

section \<open>Enumeration\<close>

text \<open>Once paging is reached, the result of \<open>enumerate_bucket_objects\<close> is decided by how
  the loop over the pages ends.\<close>

lemma enumerate_paging:
  assumes "paging_starts svc b"
  shows "enumerate_bucket_objects svc b =
           (case paginate_loop (b\<lparr>exists := BucketExists.YES\<rparr>) (paginate (s3_client svc) (name b)) of
              (EarlyReturn, b1) \<Rightarrow>
                \<lparr>outcome = Returned, bucket = b1, requests = listing_requests b\<rparr>
            | (Exhausted, b1) \<Rightarrow>
                \<lparr>outcome = Returned, bucket = b1\<lparr>objects_enumerated := True\<rparr>,
                 requests = listing_requests b\<rparr>
            | (Failed e, b1) \<Rightarrow>
                if access_denied e then
                  \<lparr>outcome = Raised (AccessDeniedException
                                        ''AccessDenied while enumerating bucket objects''),
                   bucket = b1, requests = listing_requests b\<rparr>
                else
                  \<lparr>outcome = Returned, bucket = b1\<lparr>objects_enumerated := True\<rparr>,
                   requests = listing_requests b\<rparr>)"
proof (cases "exists b = BucketExists.YES")
  case True
  then have same: "b\<lparr>exists := BucketExists.YES\<rparr> = b" by simp
  show ?thesis
    unfolding same
    by (simp add: True enumerate_bucket_objects_def listing_requests_def Let_def
        split: prod.split loop_exit.split)
next
  case False
  with assms have u: "exists b = BucketExists.UNKNOWN"
    and h: "\<not> is_404 (head_bucket (s3_client svc) (name b))"
    by (simp_all add: paging_starts_def)
  from h have c: "check_bucket_exists svc (S3BucketObj b) =
      Inr (b\<lparr>exists := BucketExists.YES\<rparr>, [HeadBucket (name b)])"
    by (simp add: check_bucket_exists_def is_404_def split: sum.splits)
  show ?thesis
    by (simp add: enumerate_bucket_objects_def u c listing_requests_def Let_def
        split: prod.split loop_exit.split)
qed

text \<open>
  Claim C8. When the listing reaches a page that carries no \<open>'Contents'\<close>, after any number
  of pages that carry one, \<open>enumerate_bucket_objects\<close> sets \<open>objects_enumerated\<close> and returns
  at once: the bucket holds the objects of the pages before that page and nothing of that
  page or of any later one, whatever the later pages are.
\<close>

theorem page_without_contents_stops:
  assumes "paging_starts svc b"
    and "paginate (s3_client svc) (name b) = map Inr pre @ Inr p # post"
    and "\<forall>q \<in> set pre. Contents q \<noteq> None"
    and "Contents p = None"
  shows "enumerate_bucket_objects svc b =
           \<lparr>outcome = Returned,
            bucket = b\<lparr>exists := BucketExists.YES,
                       objects := objects b @ concat (map page_objects pre),
                       objects_enumerated := True\<rparr>,
            requests = listing_requests b\<rparr>"
  by (simp add: enumerate_paging [OF assms(1)] assms(2) paginate_loop_prefix [OF assms(3)]
      assms(4))

theorem page_without_contents_stops_witness:
  "paging_starts (anonymous (open_client\<lparr>paginate := (\<lambda>_. three_pages)\<rparr>)) found_bucket
   \<and> enumerate_bucket_objects (anonymous (open_client\<lparr>paginate := (\<lambda>_. three_pages)\<rparr>))
       found_bucket =
       \<lparr>outcome = Returned, bucket = found_bucket\<lparr>objects_enumerated := True\<rparr>,
        requests = [Paginate ''photos'']\<rparr>
   \<and> enumerate_bucket_objects (anonymous (open_client\<lparr>paginate := (\<lambda>_. gap_pages)\<rparr>))
       (s3Bucket_init ''photos'') =
       \<lparr>outcome = Returned,
        bucket = found_bucket
          \<lparr>objects := [\<lparr>key = ''a.txt'', last_modified = 1700000000, size = 12\<rparr>],
           objects_enumerated := True\<rparr>,
        requests = [HeadBucket ''photos'', Paginate ''photos'']\<rparr>"
proof -
  have s: "paging_starts (anonymous (open_client\<lparr>paginate := (\<lambda>_. three_pages)\<rparr>)) found_bucket"
    by (simp add: paging_starts_def found_bucket_def)
  have p: "paginate (s3_client (anonymous (open_client\<lparr>paginate := (\<lambda>_. three_pages)\<rparr>)))
      (name found_bucket) = map Inr [] @ Inr \<lparr>Contents = None\<rparr> # tl three_pages"
    by (simp add: anonymous_def three_pages_def)
  have e: "\<forall>q \<in> set ([] :: page list). Contents q \<noteq> None"
    by simp
  have c: "Contents \<lparr>Contents = None\<rparr> = None"
    by simp
  have s': "paging_starts (anonymous (open_client\<lparr>paginate := (\<lambda>_. gap_pages)\<rparr>))
      (s3Bucket_init ''photos'')"
    by (simp add: paging_starts_def s3Bucket_init_def is_404_def anonymous_def open_client_def)
  have p': "paginate (s3_client (anonymous (open_client\<lparr>paginate := (\<lambda>_. gap_pages)\<rparr>)))
      (name (s3Bucket_init ''photos'')) =
      map Inr [\<lparr>Contents = Some [\<lparr>Key = ''a.txt'', LastModified = 1700000000, Size = 12\<rparr>]\<rparr>] @
      Inr \<lparr>Contents = None\<rparr> # tl (tl gap_pages)"
    by (simp add: anonymous_def gap_pages_def)
  have e': "\<forall>q \<in> set [\<lparr>Contents = Some [\<lparr>Key = ''a.txt'', LastModified = 1700000000,
      Size = 12\<rparr>]\<rparr>]. Contents q \<noteq> None"
    by simp
  show ?thesis
    using s page_without_contents_stops [OF s p e c] page_without_contents_stops [OF s' p' e' c]
    by (simp add: listing_requests_def found_bucket_def s3Bucket_init_def page_objects_def
        object_of_item_def)
qed

text \<open>A failure of a fetch, after pages that carry \<open>'Contents'\<close>: an access-denied-class code
  raises \<open>AccessDeniedException\<close> with the objects of the earlier pages kept on the bucket;
  any other code is caught, the enumeration is marked complete and the call returns.\<close>

lemma enumerate_access_denied:
  assumes "paging_starts svc b"
    and "paginate (s3_client svc) (name b) = map Inr pre @ Inl e # post"
    and "\<forall>q \<in> set pre. Contents q \<noteq> None"
    and "access_denied e"
  shows "enumerate_bucket_objects svc b =
           \<lparr>outcome = Raised (AccessDeniedException
                                 ''AccessDenied while enumerating bucket objects''),
            bucket = b\<lparr>exists := BucketExists.YES,
                       objects := objects b @ concat (map page_objects pre)\<rparr>,
            requests = listing_requests b\<rparr>"
  by (simp add: enumerate_paging [OF assms(1)] assms(2) paginate_loop_prefix [OF assms(3)]
      assms(4))

lemma enumerate_other_failure:
  assumes "paging_starts svc b"
    and "paginate (s3_client svc) (name b) = map Inr pre @ Inl e # post"
    and "\<forall>q \<in> set pre. Contents q \<noteq> None"
    and "\<not> access_denied e"
  shows "enumerate_bucket_objects svc b =
           \<lparr>outcome = Returned,
            bucket = b\<lparr>exists := BucketExists.YES,
                       objects := objects b @ concat (map page_objects pre),
                       objects_enumerated := True\<rparr>,
            requests = listing_requests b\<rparr>"
  by (simp add: enumerate_paging [OF assms(1)] assms(2) paginate_loop_prefix [OF assms(3)]
      assms(4))

text \<open>
  Claim C1. During paging, an access-denied-class failure is to raise
  \<open>AccessDeniedException\<close> with the objects of the earlier pages kept, and a failure with
  any other code is to propagate to the caller unmodified. The first half is
  \<open>enumerate_access_denied\<close>. The second half is not what the handler does: it has no
  \<open>else: raise\<close>, unlike the handlers of the four permission probes, so the error is
  dropped. On a listing whose second fetch fails with \<open>InternalError\<close> the call returns
  normally, with \<open>objects_enumerated\<close> set and the first page's object recorded.
\<close>

theorem enumerate_swallows_other_failure:
  "enumerate_bucket_objects (anonymous (open_client\<lparr>paginate := (\<lambda>_. failing_listing)\<rparr>))
     found_bucket =
     \<lparr>outcome = Returned,
      bucket = found_bucket
        \<lparr>objects := [\<lparr>key = ''a.txt'', last_modified = 1700000000, size = 12\<rparr>],
         objects_enumerated := True\<rparr>,
      requests = [Paginate ''photos'']\<rparr>"
  by (simp add: enumerate_bucket_objects_def anonymous_def open_client_def failing_listing_def
      found_bucket_def s3Bucket_init_def failure_def access_denied_def addObject_def
      object_of_item_def Let_def)

section \<open>The interpretation of a stored ACL\<close>

text \<open>Each flag after one grant, after all grants, and after the ten closing tests.\<close>

lemma flag_apply_grant:
  "flag p c (apply_grant b g) = (if grant_gives g p c then ALLOWED else flag p c b)"
  by (cases p; cases c) (simp_all add: apply_grant_def grant_gives_def)

lemma flag_foldl_apply_grant:
  "flag p c (foldl apply_grant b gs) = (if granted gs p c then ALLOWED else flag p c b)"
  by (induction gs arbitrary: b) (simp_all add: granted_def flag_apply_grant)

lemma deny_unknown_update:
  "deny_unknown b =
     b\<lparr>AuthUsersRead := (if AuthUsersRead b = Permission.UNKNOWN then DENIED else AuthUsersRead b),
       AuthUsersWrite := (if AuthUsersWrite b = Permission.UNKNOWN then DENIED else AuthUsersWrite b),
       AuthUsersReadACP :=
         (if AuthUsersReadACP b = Permission.UNKNOWN then DENIED else AuthUsersReadACP b),
       AuthUsersWriteACP :=
         (if AuthUsersWriteACP b = Permission.UNKNOWN then DENIED else AuthUsersWriteACP b),
       AuthUsersFullControl :=
         (if AuthUsersFullControl b = Permission.UNKNOWN then DENIED else AuthUsersFullControl b),
       AllUsersRead := (if AllUsersRead b = Permission.UNKNOWN then DENIED else AllUsersRead b),
       AllUsersWrite := (if AllUsersWrite b = Permission.UNKNOWN then DENIED else AllUsersWrite b),
       AllUsersReadACP :=
         (if AllUsersReadACP b = Permission.UNKNOWN then DENIED else AllUsersReadACP b),
       AllUsersWriteACP :=
         (if AllUsersWriteACP b = Permission.UNKNOWN then DENIED else AllUsersWriteACP b),
       AllUsersFullControl :=
         (if AllUsersFullControl b = Permission.UNKNOWN then DENIED else AllUsersFullControl b)\<rparr>"
proof -
  have step: "(if P then f (\<lambda>_. DENIED) r else r) = f (\<lambda>_. if P then DENIED else g r) r"
    if "f (\<lambda>_. g r) r = r"
    for P and f :: "(Permission \<Rightarrow> Permission) \<Rightarrow> s3Bucket \<Rightarrow> s3Bucket" and g r
    using that by simp
  show ?thesis
    unfolding deny_unknown_def
    by (simp add: Let_def step [where g = AuthUsersRead] step [where g = AuthUsersWrite]
        step [where g = AuthUsersReadACP] step [where g = AuthUsersWriteACP]
        step [where g = AuthUsersFullControl] step [where g = AllUsersRead]
        step [where g = AllUsersWrite] step [where g = AllUsersReadACP]
        step [where g = AllUsersWriteACP] step [where g = AllUsersFullControl]
        split del: if_split cong: if_cong)
qed

lemma flag_deny_unknown:
  "flag p c (deny_unknown b) = (if flag p c b = Permission.UNKNOWN then DENIED else flag p c b)"
  by (cases p; cases c) (simp_all add: deny_unknown_update)

text \<open>
  Claim C3. When the stored ACL carries a grant list, \<open>parse_found_acl\<close> leaves each of the
  ten flags at ALLOWED if some grant to a \<open>Group\<close> grantee with that principal class's URI
  conveys the capability (FULL_CONTROL conveys all five; READ, READ_ACP, WRITE and WRITE_ACP
  convey Read, ReadACP, Write and WriteACP), and otherwise turns a flag still at UNKNOWN
  into DENIED and leaves any other value. So the single grant of FULL_CONTROL to the
  AllUsers group gives five AllUsers flags at ALLOWED and every AuthUsers flag that was at
  UNKNOWN at DENIED, and an empty grant list gives DENIED for every flag that was at
  UNKNOWN: all ten on a bucket whose flags are at their default.
\<close>

theorem parse_found_acl_flags:
  assumes "foundACL b = Some a" and "Grants a = Some gs"
  shows "(\<forall>p c. flag p c (parse_found_acl b) =
            (if granted gs p c then ALLOWED
             else if flag p c b = Permission.UNKNOWN then DENIED else flag p c b))
       \<and> (gs = [all_users_full_control] \<longrightarrow>
            (\<forall>c. flag AllUsers c (parse_found_acl b) = ALLOWED) \<and>
            (\<forall>c. flag AuthUsers c b = Permission.UNKNOWN \<longrightarrow>
                 flag AuthUsers c (parse_found_acl b) = DENIED))
       \<and> (gs = [] \<longrightarrow>
            (\<forall>p c. flag p c b = Permission.UNKNOWN \<longrightarrow> flag p c (parse_found_acl b) = DENIED))"
proof -
  have eq: "parse_found_acl b = deny_unknown (foldl apply_grant b gs)"
    using assms by (simp add: parse_found_acl_def)
  have main: "flag p c (parse_found_acl b) =
      (if granted gs p c then ALLOWED
       else if flag p c b = Permission.UNKNOWN then DENIED else flag p c b)" for p c
    by (simp add: eq flag_deny_unknown flag_foldl_apply_grant)
  have all: "granted [all_users_full_control] AllUsers c" for c
    by (cases c) (simp_all add: granted_def grant_gives_def all_users_full_control_def)
  have auth: "\<not> granted [all_users_full_control] AuthUsers c" for c
    by (simp add: granted_def grant_gives_def all_users_full_control_def)
  have none: "\<not> granted [] p c" for p c
    by (simp add: granted_def)
  show ?thesis
    by (intro conjI allI impI) (simp_all add: main all auth none)
qed

theorem parse_found_acl_flags_witness:
  "(\<forall>c. flag AllUsers c (parse_found_acl
      (found_bucket\<lparr>foundACL := Some \<lparr>Grants = Some [all_users_full_control]\<rparr>\<rparr>)) = ALLOWED)
   \<and> (\<forall>c. flag AuthUsers c (parse_found_acl
      (found_bucket\<lparr>foundACL := Some \<lparr>Grants = Some [all_users_full_control]\<rparr>\<rparr>)) = DENIED)
   \<and> (\<forall>p c. flag p c (parse_found_acl
      (found_bucket\<lparr>foundACL := Some \<lparr>Grants = Some []\<rparr>\<rparr>)) = DENIED)"
proof -
  have u: "flag p c (found_bucket\<lparr>foundACL := x\<rparr>) = Permission.UNKNOWN" for p c x
    by (cases p; cases c) (simp_all add: found_bucket_def s3Bucket_init_def)
  have f: "foundACL (found_bucket\<lparr>foundACL := Some x\<rparr>) = Some x" for x
    by simp
  have g: "Grants \<lparr>Grants = Some gs\<rparr> = Some gs" for gs :: "grant list"
    by simp
  show ?thesis
    using parse_found_acl_flags [OF f g, of "[all_users_full_control]", THEN conjunct2,
        THEN conjunct1]
      parse_found_acl_flags [OF f g, of "[]", THEN conjunct2, THEN conjunct2]
    by (simp add: u)
qed

section \<open>The grant request of the ACL-write probe\<close>

text \<open>Joining with a comma puts the strings side by side with one comma between
  neighbours, and splitting the result at the commas gives the strings back when none of
  them holds a comma.\<close>

lemma join_comma_separated: "join '','' xs = comma_separated xs"
  by (induction "'',''" xs rule: join.induct) (simp_all add: comma_separated_def)

lemma split_on_no_sep: "c \<notin> set x \<Longrightarrow> split_on c x = [x]"
  by (induction x) auto

lemma split_on_append_sep:
  "c \<notin> set x \<Longrightarrow> split_on c (x @ c # rest) = x # split_on c rest"
  by (induction x) auto

lemma split_on_join:
  "xs \<noteq> [] \<Longrightarrow> \<forall>x \<in> set xs. c \<notin> set x \<Longrightarrow> split_on c (join [c] xs) = xs"
proof (induction "[c]" xs rule: join.induct)
  case 1
  then show ?case by simp
next
  case (2 x)
  then show ?case by (simp add: split_on_no_sep)
next
  case (3 x y ys)
  then show ?case by (simp add: split_on_append_sep)
qed

lemma principal_uri_constants:
  "principal_uri AuthUsers = authUsersURI" "principal_uri AllUsers = allUsersURI"
  by (simp_all add: authUsersURI_def allUsersURI_def)

lemma grant_list_no_comma: "\<forall>x \<in> set (grant_list svc b c). CHR '','' \<notin> set x"
proof -
  have "CHR '','' \<notin> set (principal_uri p)" for p
    by (cases p) simp_all
  then show ?thesis
    by (auto simp add: grant_list_def simp del: principal_uri.simps)
qed

text \<open>The arguments built by the source are the bucket name followed by one entry per
  capability whose grant list is not empty.\<close>

lemma acl_args_entries:
  "acl_args svc b =
     (''Bucket'', name b) # grant_entry svc b Read @ grant_entry svc b Write @
     grant_entry svc b ReadACP @ grant_entry svc b WriteACP @ grant_entry svc b FullControl"
  by (simp add: acl_args_def Let_def grant_entry_def grant_list_def tested_principal_def
      principal_uri_constants join_comma_separated [symmetric] del: principal_uri.simps)

lemma map_of_grant_entry:
  "map_of (grant_entry svc b c) k =
     (if k = grant_param c \<and> grant_list svc b c \<noteq> []
      then Some (comma_separated (grant_list svc b c)) else None)"
  by (simp add: grant_entry_def)

lemma acl_args_lookup:
  "map_of (acl_args svc b) (grant_param c) =
     (if grant_list svc b c = [] then None else Some (comma_separated (grant_list svc b c)))"
  by (cases c) (simp_all add: acl_args_entries map_of_grant_entry map_add_def)

text \<open>
  Claim C4. On a bucket with \<open>exists\<close> at YES and any values of the ten flags,
  \<open>check_perm_write_acl\<close> sends one request whose arguments are the bucket name and, for
  each capability whose grant list is not empty, one parameter; a capability with an empty
  list has none. The parameter's value is the comma-separated list that splits at the
  commas into exactly the URIs of the principal classes whose flag for that capability is
  ALLOWED (AuthenticatedUsers before AllUsers), followed on the write-ACP list only by the
  URI of the class under test.
\<close>

theorem write_acl_grant_request:
  assumes "exists b = BucketExists.YES"
  shows "requests (check_perm_write_acl svc b) = [PutBucketAcl (acl_args svc b)]
       \<and> acl_args svc b =
           (''Bucket'', name b) #
           concat (map (grant_entry svc b) [Read, Write, ReadACP, WriteACP, FullControl])
       \<and> (\<forall>c. grant_list svc b c = [] \<longrightarrow> map_of (acl_args svc b) (grant_param c) = None)
       \<and> (\<forall>c. grant_list svc b c \<noteq> [] \<longrightarrow>
              map_of (acl_args svc b) (grant_param c) =
                Some (comma_separated (grant_list svc b c))
            \<and> split_on CHR '','' (comma_separated (grant_list svc b c)) = grant_list svc b c)"
proof (intro conjI allI impI)
  show "requests (check_perm_write_acl svc b) = [PutBucketAcl (acl_args svc b)]"
    using assms
    by (cases "put_bucket_acl (s3_client svc) (acl_args svc b)")
      (simp_all add: check_perm_write_acl_def Let_def)
  show "acl_args svc b =
      (''Bucket'', name b) #
      concat (map (grant_entry svc b) [Read, Write, ReadACP, WriteACP, FullControl])"
    by (simp add: acl_args_entries)
  show "map_of (acl_args svc b) (grant_param c) = None" if "grant_list svc b c = []" for c
    using that by (simp add: acl_args_lookup)
  show "map_of (acl_args svc b) (grant_param c) = Some (comma_separated (grant_list svc b c))"
    if "grant_list svc b c \<noteq> []" for c
    using that by (simp add: acl_args_lookup)
  show "split_on CHR '','' (comma_separated (grant_list svc b c)) = grant_list svc b c"
    if "grant_list svc b c \<noteq> []" for c
    using split_on_join [OF that grant_list_no_comma]
    by (simp add: join_comma_separated)
qed

theorem write_acl_grant_request_witness:
  "exists (found_bucket\<lparr>AuthUsersRead := ALLOWED\<rparr>) = BucketExists.YES
   \<and> requests (check_perm_write_acl (credentialed open_client)
        (found_bucket\<lparr>AuthUsersRead := ALLOWED\<rparr>)) =
       [PutBucketAcl
          [(''Bucket'', ''photos''),
           (''GrantRead'', ''uri=http://acs.amazonaws.com/groups/global/AuthenticatedUsers''),
           (''GrantWriteACP'', ''uri=http://acs.amazonaws.com/groups/global/AuthenticatedUsers'')]]
   \<and> requests (check_perm_write_acl (anonymous open_client) open_bucket) =
       [PutBucketAcl
          [(''Bucket'', ''photos''),
           (''GrantRead'',
            ''uri=http://acs.amazonaws.com/groups/global/AuthenticatedUsers,uri=http://acs.amazonaws.com/groups/global/AllUsers''),
           (''GrantWrite'', ''uri=http://acs.amazonaws.com/groups/global/AllUsers''),
           (''GrantWriteACP'',
            ''uri=http://acs.amazonaws.com/groups/global/AuthenticatedUsers,uri=http://acs.amazonaws.com/groups/global/AllUsers,uri=http://acs.amazonaws.com/groups/global/AllUsers'')]]
   \<and> split_on CHR '',''
        ''uri=http://acs.amazonaws.com/groups/global/AuthenticatedUsers,uri=http://acs.amazonaws.com/groups/global/AllUsers'' =
       [''uri=http://acs.amazonaws.com/groups/global/AuthenticatedUsers'',
        ''uri=http://acs.amazonaws.com/groups/global/AllUsers'']"
proof -
  have h: "exists (found_bucket\<lparr>AuthUsersRead := ALLOWED\<rparr>) = BucketExists.YES"
    and h': "exists open_bucket = BucketExists.YES"
    by (simp_all add: found_bucket_def open_bucket_def)
  have r: "grant_list (anonymous open_client) open_bucket Read =
      [''uri=http://acs.amazonaws.com/groups/global/AuthenticatedUsers'',
       ''uri=http://acs.amazonaws.com/groups/global/AllUsers'']"
    by (simp add: grant_list_def open_bucket_def found_bucket_def s3Bucket_init_def)
  have s: "split_on CHR '',''
        ''uri=http://acs.amazonaws.com/groups/global/AuthenticatedUsers,uri=http://acs.amazonaws.com/groups/global/AllUsers'' =
       [''uri=http://acs.amazonaws.com/groups/global/AuthenticatedUsers'',
        ''uri=http://acs.amazonaws.com/groups/global/AllUsers'']"
    using write_acl_grant_request [OF h', of "anonymous open_client", THEN conjunct2,
        THEN conjunct2, THEN conjunct2, rule_format, of Read, THEN conjunct2]
    by (simp add: r comma_separated_def)
  have a: "acl_args (credentialed open_client) (found_bucket\<lparr>AuthUsersRead := ALLOWED\<rparr>) =
      [(''Bucket'', ''photos''),
       (''GrantRead'', ''uri=http://acs.amazonaws.com/groups/global/AuthenticatedUsers''),
       (''GrantWriteACP'', ''uri=http://acs.amazonaws.com/groups/global/AuthenticatedUsers'')]"
    using write_acl_grant_request [OF h, of "credentialed open_client", THEN conjunct2,
        THEN conjunct1]
    by (simp add: grant_entry_def grant_list_def tested_principal_def comma_separated_def
        credentialed_def found_bucket_def s3Bucket_init_def)
  have a': "acl_args (anonymous open_client) open_bucket =
      [(''Bucket'', ''photos''),
       (''GrantRead'',
        ''uri=http://acs.amazonaws.com/groups/global/AuthenticatedUsers,uri=http://acs.amazonaws.com/groups/global/AllUsers''),
       (''GrantWrite'', ''uri=http://acs.amazonaws.com/groups/global/AllUsers''),
       (''GrantWriteACP'',
        ''uri=http://acs.amazonaws.com/groups/global/AuthenticatedUsers,uri=http://acs.amazonaws.com/groups/global/AllUsers,uri=http://acs.amazonaws.com/groups/global/AllUsers'')]"
    using write_acl_grant_request [OF h', of "anonymous open_client", THEN conjunct2,
        THEN conjunct1]
    by (simp add: grant_entry_def grant_list_def tested_principal_def comma_separated_def
        anonymous_def open_bucket_def found_bucket_def s3Bucket_init_def)
  show ?thesis
    using h s write_acl_grant_request [OF h, of "credentialed open_client", THEN conjunct1]
      write_acl_grant_request [OF h', of "anonymous open_client", THEN conjunct1]
    by (simp only: a a' simp_thms)
qed

end
